theory Spec2Isabelle
  imports Main
begin

section \<open>Data model (pbnsolve.h)\<close>

text \<open>
  Colours, line indices and cell addresses are natural numbers. A \<open>Cell *\<close> of the C code
  is the address of the cell in the store \<open>cells\<close> of the state. The bit string of a
  cell (bitstring.h is not among the sources) is the set of the colours whose bit is 1.
  The C counters are \<open>int\<close>; they are modelled by unbounded integers, signed overflow
  being undefined in C. The pointers of the C code point to allocated cells; in the model
  a read through an address outside the store yields an unspecified cell and a write
  through it changes nothing, and \<open>valid_ptrs\<close> below says that the pointers of the grid are
  addresses of the store; it is assumed wherever a property depends on it.
\<close>

type_synonym color = nat
type_synonym cellptr = nat
type_synonym bits = "nat set"

text \<open>\<open>Cell\<close>: coordinates \<open>line[D_ROW]\<close>, \<open>line[D_COL]\<close>, the count \<open>n\<close> and the bit string
  \<open>bit\<close>. The third coordinate is used by triddlers only and is left out.\<close>

record cell =
  cline0 :: nat
  cline1 :: nat
  cell_n :: int
  cell_bit :: bits

definition cell_line :: "cell \<Rightarrow> nat \<Rightarrow> nat" where
  "cell_line c k = (if k = 0 then cline0 c else cline1 c)"

text \<open>\<open>Clue\<close>: \<open>n\<close>, \<open>length\<close>, \<open>color\<close> and \<open>slack\<close>. The field \<open>jobindex\<close> is represented
  by membership of the line in the job list.\<close>

record clue =
  clue_n :: int
  clue_length :: "int list"
  clue_color :: "nat list"
  clue_slack :: int

record job =
  priority :: int
  jdir :: nat
  jn :: nat

record hist =
  hbranch :: bool
  hcell :: cellptr
  hn :: int
  hbit :: bits

record merge_elem =
  mcell :: cellptr
  maxc :: int
  mbit :: bits

text \<open>The parts of \<open>Puzzle\<close> and \<open>Solution\<close> that the solver never writes: the number of
  colours, the number of directions, the clues \<open>clue[k][i]\<close>, the number of cells, and the
  pointer arrays \<open>sol->line[D_ROW]\<close> (one list of cell addresses per row, the terminating
  \<open>NULL\<close> being the end of the list; \<open>sol->n[D_ROW]\<close> is the number of rows).\<close>

record puzzle =
  ncolor :: nat
  nset :: nat
  clue :: "clue list list"
  ncells :: int
  line0 :: "cellptr list list"

text \<open>Everything the solver writes: the cells, \<open>puz->nsolved\<close>, the job list, the undo
  history (newest entry first), the merge list of merge.c with its guess number, the
  probe pad (pairs of a cell and a colour whose bit is set), the global flags
  \<open>probing\<close> and \<open>merging\<close>, and the instrumentation counters.\<close>

record state =
  cells :: "cell list"
  nsolved :: int
  jobs :: "job list"
  history :: "hist list"
  merge_list :: "merge_elem list"
  merge_no :: int
  probepad :: "(cellptr \<times> color) set"
  probing :: bool
  merging :: bool
  nlines :: int
  guesses :: int
  probes :: int
  merges :: int

text \<open>The command line switches, fixed during a solve.\<close>

record config =
  maybacktrack :: bool
  mayprobe :: bool
  tryharder :: bool
  mergeprobe :: bool
  probelevel :: int

definition INT_MAX :: int where
  "INT_MAX = 2147483647"

section \<open>Rating a cell (solve.c, GR_ADHOC)\<close>

text \<open>The clue of line \<open>i\<close> in direction \<open>k\<close>; the callers pass indices of existing lines.\<close>

definition clue_at :: "puzzle \<Rightarrow> nat \<Rightarrow> nat \<Rightarrow> clue" where
  "clue_at puz k i = clue puz ! k ! i"

definition ratecell :: "puzzle \<Rightarrow> nat \<Rightarrow> nat \<Rightarrow> int" where
  "ratecell puz i j =
     (let si = clue_slack (clue_at puz 0 i) + 2 * clue_n (clue_at puz 0 i);
          sj = clue_slack (clue_at puz 0 i) + 2 * clue_n (clue_at puz 0 i)
      in if si < sj then 3 * si + sj else 3 * sj + si)"

text \<open>The rating as the specification words it, for comparison.\<close>

definition line_score :: "puzzle \<Rightarrow> nat \<Rightarrow> nat \<Rightarrow> int" where
  "line_score puz k i = clue_slack (clue_at puz k i) + 2 * clue_n (clue_at puz k i)"



section \<open>Code of the repository that is not among the sources\<close>

text \<open>
  line_lro.c, job.c, merge.c, the trunk's solve.c and the build-time guessing policies are
  not among the sources. Where the specification says what such a function does it is
  modelled below; otherwise it is a field of \<open>env\<close>, and every theorem holds for whatever
  these functions compute:
  \<^item> \<open>left_solve\<close>: the leftmost placement of a line under the clues and the cells it is
    given, \<open>None\<close> for \<open>NULL\<close>;
  \<^item> \<open>apply_lro\<close>: the line solver on one line; the flag is False on a contradiction;
  \<^item> \<open>job_priority\<close>: the priority under which a line is queued;
  \<^item> \<open>undo\<close>: \<open>undo(puz,sol,0)\<close>;
  \<^item> \<open>backtrack\<close>: the flag is True when there was nothing to backtrack to;
  \<^item> \<open>merge_guess\<close>, \<open>merge_cancel\<close>, \<open>merge_check\<close> (the flag is its result);
  \<^item> \<open>pick_a_cell\<close> (its ratings are floats and its policy is chosen at build time) and
    \<open>pick_color\<close>, \<open>None\<close> being \<open>NULL\<close> and a call of \<open>fail\<close>;
  \<^item> \<open>logic_solve_trunk\<close>: the three-argument \<open>logic_solve\<close> of the trunk, which returns
    0 when it stalls, a negative number on a contradiction, a positive one when the
    puzzle is solved.
\<close>

record env =
  left_solve :: "puzzle \<Rightarrow> cell list \<Rightarrow> nat \<Rightarrow> nat \<Rightarrow> int list option"
  apply_lro :: "puzzle \<Rightarrow> state \<Rightarrow> nat \<Rightarrow> nat \<Rightarrow> bool \<times> state"
  job_priority :: "puzzle \<Rightarrow> state \<Rightarrow> nat \<Rightarrow> nat \<Rightarrow> int"
  undo :: "puzzle \<Rightarrow> state \<Rightarrow> state"
  backtrack :: "puzzle \<Rightarrow> state \<Rightarrow> bool \<times> state"
  merge_guess :: "state \<Rightarrow> state"
  merge_cancel :: "state \<Rightarrow> state"
  merge_check :: "puzzle \<Rightarrow> state \<Rightarrow> bool \<times> state"
  pick_a_cell :: "puzzle \<Rightarrow> state \<Rightarrow> cellptr option"
  pick_color :: "puzzle \<Rightarrow> state \<Rightarrow> cellptr \<Rightarrow> color option"
  logic_solve_trunk :: "puzzle \<Rightarrow> state \<Rightarrow> int \<times> state"

subsection \<open>Bit strings\<close>

text \<open>Modelled from the spec: the bit-board primitives \<open>test\<close>, \<open>set\<close>, \<open>clear\<close> of
  bitstring.h; \<open>bit_clearall\<close> clears every bit of the string.\<close>

definition bit_test :: "bits \<Rightarrow> color \<Rightarrow> bool" where
  "bit_test b c = (c \<in> b)"

definition bit_set :: "bits \<Rightarrow> color \<Rightarrow> bits" where
  "bit_set b c = insert c b"

definition bit_clear :: "bits \<Rightarrow> color \<Rightarrow> bits" where
  "bit_clear b c = b - {c}"

definition bit_clearall :: "bits \<Rightarrow> nat \<Rightarrow> bits" where
  "bit_clearall b ncol = {}"

definition may_be :: "cell \<Rightarrow> color \<Rightarrow> bool" where
  "may_be c col = bit_test (cell_bit c) col"

subsection \<open>Job list and history\<close>

text \<open>Modelled from the spec: \<open>add_job\<close> of job.c. Adding is a no-op if the line is on the
  job list already; otherwise the line is queued under a priority fixed at that moment.\<close>

definition add_job :: "env \<Rightarrow> puzzle \<Rightarrow> state \<Rightarrow> nat \<Rightarrow> nat \<Rightarrow> state" where
  "add_job E puz s k i =
     (if list_ex (\<lambda>j. jdir j = k \<and> jn j = i) (jobs s) then s
      else s\<lparr>jobs := jobs s @ [\<lparr>priority = job_priority E puz s k i, jdir = k, jn = i\<rparr>]\<rparr>)"

text \<open>Modelled from the spec: \<open>add_jobs\<close> of job.c queues every line that crosses the
  cell, one per direction.\<close>

definition add_jobs :: "env \<Rightarrow> puzzle \<Rightarrow> state \<Rightarrow> cellptr \<Rightarrow> state" where
  "add_jobs E puz s a =
     foldl (\<lambda>t k. add_job E puz t k (cell_line (cells t ! a) k)) s [0..<nset puz]"

text \<open>The first job of highest priority among \<open>b # js\<close>.\<close>

fun best_job :: "job \<Rightarrow> job list \<Rightarrow> job" where
  "best_job b [] = b"
| "best_job b (j # js) = best_job (if priority b < priority j then j else b) js"

text \<open>Modelled from the spec: \<open>next_job\<close> of job.c pops the job of highest priority
  (the earliest queued among equals); it returns 0 and changes nothing when the job list
  is empty.\<close>

definition next_job :: "state \<Rightarrow> (nat \<times> nat \<times> state) option" where
  "next_job s =
     (case jobs s of
        [] \<Rightarrow> None
      | b # js \<Rightarrow>
          (let j = best_job b js
           in Some (jdir j, jn j, s\<lparr>jobs := remove1 j (jobs s)\<rparr>)))"

text \<open>Modelled from the spec: \<open>add_hist\<close> of job.c pushes the cell with its old \<open>n\<close> and old
  bit string and the branch flag. History is kept from the first branch point on.\<close>

definition add_hist :: "state \<Rightarrow> cellptr \<Rightarrow> bool \<Rightarrow> state" where
  "add_hist s a branch =
     (if branch \<or> history s \<noteq> [] then
        s\<lparr>history := \<lparr>hbranch = branch, hcell = a, hn = cell_n (cells s ! a),
                       hbit = cell_bit (cells s ! a)\<rparr> # history s\<rparr>
      else s)"

section \<open>solve.c (pbnsolve 1.01)\<close>

text \<open>The cell pointer \<open>sol->line[0][i][j]\<close>; \<open>None\<close> is the \<open>NULL\<close> that ends a row.\<close>

definition cell_ptr :: "puzzle \<Rightarrow> nat \<Rightarrow> nat \<Rightarrow> cellptr option" where
  "cell_ptr puz i j =
     (if i < length (line0 puz) \<and> j < length (line0 puz ! i) then Some (line0 puz ! i ! j)
      else None)"

text \<open>\<open>sol->line[0][i][j]->n == 1\<close>; \<open>None\<close> when the pointer is \<open>NULL\<close>.\<close>

definition solved_at :: "puzzle \<Rightarrow> state \<Rightarrow> nat \<Rightarrow> nat \<Rightarrow> bool option" where
  "solved_at puz s i j =
     (case cell_ptr puz i j of None \<Rightarrow> None | Some a \<Rightarrow> Some (cell_n (cells s ! a) = 1))"

text \<open>\<open>if (...) count++\<close>, the test having read through a \<open>NULL\<close> pointer when it is
  \<open>None\<close>.\<close>

fun count_if :: "bool option \<Rightarrow> int option \<Rightarrow> int option" where
  "count_if (Some b) (Some m) = Some (if b then m + 1 else m)"
| "count_if _ _ = None"

text \<open>The number of neighbours of cell (i, j) that are solved or off the edge.\<close>

definition count_neighbors :: "puzzle \<Rightarrow> state \<Rightarrow> nat \<Rightarrow> nat \<Rightarrow> int option" where
  "count_neighbors puz s i j =
     count_if (case cell_ptr puz i (j + 1) of
                 None \<Rightarrow> Some True
               | Some a \<Rightarrow> Some (cell_n (cells s ! a) = 1))
      (count_if (if j = 0 then Some True else solved_at puz s i (j - 1))
        (count_if (if int i = int (length (line0 puz)) - 1 then Some True
                   else solved_at puz s (i + 1) j)
          (count_if (if i = 0 then Some True else solved_at puz s (i - 1) j) (Some 0))))"

text \<open>Writing \<open>n\<close> and the bit string of a cell.\<close>

definition set_cell :: "state \<Rightarrow> cellptr \<Rightarrow> int \<Rightarrow> bits \<Rightarrow> state" where
  "set_cell s a m b = s\<lparr>cells := (cells s)[a := (cells s ! a)\<lparr>cell_n := m, cell_bit := b\<rparr>]\<rparr>"

subsection \<open>try_everything\<close>

text \<open>The loop over the directions \<open>k\<close>: True when \<open>left_solve\<close> finds a placement on every
  crossing line, False at the first line where it returns \<open>NULL\<close>.\<close>

fun check_lines :: "env \<Rightarrow> puzzle \<Rightarrow> cell list \<Rightarrow> cellptr \<Rightarrow> nat list \<Rightarrow> bool" where
  "check_lines E puz cs a [] = True"
| "check_lines E puz cs a (k # ks) =
     (case left_solve E puz cs k (cell_line (cs ! a) k) of
        Some soln \<Rightarrow> check_lines E puz cs a ks
      | None \<Rightarrow> False)"

text \<open>The loop over the colours of one cell, on the state, \<open>realbit\<close>, \<open>realn\<close> and \<open>hits\<close>.\<close>

fun try_colors ::
  "env \<Rightarrow> puzzle \<Rightarrow> cellptr \<Rightarrow> color list \<Rightarrow> state \<Rightarrow> bits \<Rightarrow> int \<Rightarrow> int
     \<Rightarrow> state \<times> bits \<times> int \<times> int" where
  "try_colors E puz a [] s realbit realn hits = (s, realbit, realn, hits)"
| "try_colors E puz a (c # cs) s realbit realn hits =
     (if \<not> bit_test realbit c then try_colors E puz a cs s realbit realn hits
      else
        (let s1 = set_cell s a 1 (bit_set (bit_clearall (cell_bit (cells s ! a)) (ncolor puz)) c)
         in if check_lines E puz (cells s1) a [0..<nset puz]
            then try_colors E puz a cs s1 realbit realn hits
            else
              (let s2 = add_jobs E puz s1 a
               in if realn - 1 = 1
                  then (s2\<lparr>nsolved := nsolved s2 + 1\<rparr>, bit_clear realbit c, realn - 1, hits + 1)
                  else try_colors E puz a cs s2 (bit_clear realbit c) (realn - 1) (hits + 1))))"

text \<open>The body of the loops over the cells: solved cells are skipped; the others are tried
  in every colour and then given \<open>realbit\<close> and \<open>realn\<close>.\<close>

definition try_cell :: "env \<Rightarrow> puzzle \<Rightarrow> state \<times> int \<Rightarrow> cellptr \<Rightarrow> state \<times> int" where
  "try_cell E puz sh a =
     (let s = fst sh; hits = snd sh
      in if cell_n (cells s ! a) = 1 then (s, hits)
         else
           (case try_colors E puz a [0..<ncolor puz] s (cell_bit (cells s ! a))
                   (cell_n (cells s ! a)) hits of
              (s1, realbit, realn, hits1) \<Rightarrow> (set_cell s1 a realn realbit, hits1)))"

definition try_everything :: "env \<Rightarrow> puzzle \<Rightarrow> state \<Rightarrow> int \<times> state" where
  "try_everything E puz s =
     (case foldl (try_cell E puz) (s, 0) (concat (line0 puz)) of (s1, hits) \<Rightarrow> (hits, s1))"

subsection \<open>guess_cell and logic_solve\<close>

definition guess_cell :: "env \<Rightarrow> puzzle \<Rightarrow> state \<Rightarrow> cellptr \<Rightarrow> color \<Rightarrow> state" where
  "guess_cell E puz s a c =
     (let s1 = add_hist s a True;
          s2 = set_cell s1 a 1 (bit_set (bit_clearall (cell_bit (cells s1 ! a)) (ncolor puz)) c);
          s3 = s2\<lparr>nsolved := nsolved s2 + 1\<rparr>
      in add_jobs E puz s3 a)"

text \<open>The loop of \<open>logic_solve\<close> need not end for every line solver: \<open>None\<close> is a call that
  does not return.\<close>

partial_function (option) logic_solve :: "env \<Rightarrow> puzzle \<Rightarrow> state \<Rightarrow> (int \<times> state) option" where
  "logic_solve E puz s =
     (case next_job s of
        None \<Rightarrow> Some (1, s)
      | Some (dir, i, s1) \<Rightarrow>
          (case apply_lro E puz (s1\<lparr>nlines := nlines s1 + 1\<rparr>) dir i of
             (ok, s2) \<Rightarrow> if \<not> ok then Some (0, s2) else logic_solve E puz s2))"

declare logic_solve.simps [code]

subsection \<open>solve\<close>

text \<open>The local variables of \<open>solve\<close> that live across iterations of its loop. \<open>besti\<close>,
  \<open>bestj\<close> and \<open>bestc\<close> are written together and are not initialised: \<open>best\<close> is \<open>None\<close>
  until they are written. \<open>i\<close>, \<open>j\<close> and \<open>c\<close> are written before they are read.\<close>

record locals =
  lprobing :: bool
  li :: nat
  lj :: nat
  lc :: color
  bestnleft :: int
  best :: "(nat \<times> nat \<times> color) option"

text \<open>How a call ends: it returns a value, the program exits with a diagnostic, or a
  \<open>NULL\<close> pointer or an unset variable is read.\<close>

datatype outcome = Returned int state | Exited string state | Faulted

datatype step = Continue state locals | Stop outcome

text \<open>Where the scan for the next cell to probe on leaves the loops of \<open>solve\<close>: at a probe
  (\<open>goto loop\<close> after \<open>guess_cell\<close>, with the values of \<open>i\<close>, \<open>j\<close>, \<open>c\<close>), at a successful
  \<open>merge_check\<close>, or at their end.\<close>

datatype scan = Probe state nat nat color | Merged state nat nat | RowDone state color
  | ScanDone state nat color | ScanFault

text \<open>\<open>for (; c < puz->ncolor; c++) if (may_be(cell, c))\<close>: the first such colour.\<close>

definition next_color :: "puzzle \<Rightarrow> cell \<Rightarrow> color \<Rightarrow> color option" where
  "next_color puz cl c = find (may_be cl) [c..<ncolor puz]"

text \<open>The loop over \<open>j\<close>, on the cells of row \<open>i\<close> from index \<open>j\<close> on.\<close>

fun scan_row :: "env \<Rightarrow> puzzle \<Rightarrow> nat \<Rightarrow> cellptr list \<Rightarrow> nat \<Rightarrow> color \<Rightarrow> state \<Rightarrow> scan" where
  "scan_row E puz i [] j c s = RowDone s c"
| "scan_row E puz i (a # as) j c s =
     (if cell_n (cells s ! a) < 2 then scan_row E puz i as (j + 1) c s
      else
        (case count_neighbors puz s i j of
           None \<Rightarrow> ScanFault
         | Some neigh \<Rightarrow>
             if neigh \<ge> 2 then
               (case next_color puz (cells s ! a) c of
                  Some c1 \<Rightarrow>
                    Probe (guess_cell E puz (merge_guess E (s\<lparr>probes := probes s + 1\<rparr>)) a c1)
                      i j c1
                | None \<Rightarrow>
                    (case merge_check E puz s of
                       (found, s1) \<Rightarrow>
                         if found then Merged (s1\<lparr>merges := merges s1 + 1\<rparr>) i j
                         else scan_row E puz i as (j + 1) 0 s1))
             else scan_row E puz i as (j + 1) c s))"

text \<open>The loop over \<open>i\<close>, on the rows from \<open>i\<close> on; \<open>j\<close> is reset after each row.\<close>

fun scan_rows ::
  "env \<Rightarrow> puzzle \<Rightarrow> cellptr list list \<Rightarrow> nat \<Rightarrow> nat \<Rightarrow> color \<Rightarrow> state \<Rightarrow> scan" where
  "scan_rows E puz [] i j c s = ScanDone s i c"
| "scan_rows E puz (r # rs) i j c s =
     (case scan_row E puz i (drop j r) j c s of
        RowDone s1 c1 \<Rightarrow> scan_rows E puz rs (i + 1) 0 c1 s1
      | other \<Rightarrow> other)"

text \<open>The probing algorithm inside \<open>solve\<close> from the scan for the next cell to probe on
  to the end of the branch \<open>if (mayprobe)\<close>.\<close>

definition probe_scan :: "env \<Rightarrow> puzzle \<Rightarrow> state \<Rightarrow> locals \<Rightarrow> step" where
  "probe_scan E puz s lv =
     (case scan_rows E puz (drop (li lv) (line0 puz)) (li lv) (lj lv) (lc lv) s of
        Probe s2 i j c \<Rightarrow> Continue s2 (lv\<lparr>li := i, lj := j, lc := c\<rparr>)
      | Merged s2 i j \<Rightarrow> Continue s2 (lv\<lparr>li := i, lj := j, lc := 0, lprobing := False\<rparr>)
      | RowDone s2 c \<Rightarrow> Stop Faulted
      | ScanFault \<Rightarrow> Stop Faulted
      | ScanDone s2 i c \<Rightarrow>
          (let lv2 = lv\<lparr>li := i, lj := 0, lc := c, lprobing := False\<rparr>
           in if bestnleft lv2 = INT_MAX
              then Stop (Exited ''ERROR: found no cells to prob on.  Puzzle done?'' s2)
              else
                (case best lv2 of
                   None \<Rightarrow> Stop Faulted
                 | Some (bi, bj, bc) \<Rightarrow>
                     (case cell_ptr puz bi bj of
                        None \<Rightarrow> Stop Faulted
                      | Some a \<Rightarrow>
                          (let s3 = guess_cell E puz s2 a bc
                           in Continue (s3\<lparr>guesses := guesses s3 + 1\<rparr>) lv2)))))"

text \<open>The probing algorithm inside \<open>solve\<close>: a new probe sequence is started, or the probe
  just completed is rated and undone; then the scan goes on.\<close>

definition probe_step :: "env \<Rightarrow> puzzle \<Rightarrow> state \<Rightarrow> locals \<Rightarrow> step" where
  "probe_step E puz s lv =
     (if \<not> lprobing lv then
        probe_scan E puz s
          (lv\<lparr>li := 0, lj := 0, lc := 0, bestnleft := INT_MAX, lprobing := True\<rparr>)
      else
        (let nleft = ncells puz - nsolved s;
             lv0 = (if nleft < bestnleft lv
                    then lv\<lparr>bestnleft := nleft, best := Some (li lv, lj lv, lc lv)\<rparr>
                    else lv)
         in probe_scan E puz (undo E puz s) (lv0\<lparr>lc := lc lv0 + 1\<rparr>)))"

text \<open>The old guessing algorithm, the \<open>else\<close> branch of \<open>if (mayprobe)\<close>.\<close>

definition guess_step :: "env \<Rightarrow> puzzle \<Rightarrow> state \<Rightarrow> locals \<Rightarrow> step" where
  "guess_step E puz s lv =
     (case pick_a_cell E puz s of
        None \<Rightarrow> Stop (Returned 0 s)
      | Some a \<Rightarrow>
          (case pick_color E puz s a of
             None \<Rightarrow> Stop (Exited ''Picked a cell to guess on with one color'' s)
           | Some c \<Rightarrow>
               (let s1 = guess_cell E puz s a c
                in Continue (s1\<lparr>guesses := guesses s1 + 1\<rparr>) lv)))"

text \<open>One iteration of \<open>while (1)\<close> after \<open>logic_solve\<close> has returned \<open>rc\<close>.
  \<open>try_everything\<close> is called only when \<open>tryharder\<close> is set and the history is empty.\<close>

definition solve_step :: "env \<Rightarrow> config \<Rightarrow> puzzle \<Rightarrow> int \<Rightarrow> state \<Rightarrow> locals \<Rightarrow> step" where
  "solve_step E C puz rc s lv =
     (if rc \<noteq> 0 then
        (if nsolved s = ncells puz then Stop (Returned 1 s)
         else
           (let (hits, s1) =
                  (if tryharder C \<and> history s = [] then try_everything E puz s else (0, s))
            in if hits \<noteq> 0 then Continue s1 lv
               else if \<not> maybacktrack C then Stop (Returned 1 s1)
               else if mayprobe C then probe_step E puz s1 lv
               else guess_step E puz s1 lv))
      else
        (case backtrack E puz (s\<lparr>guesses := guesses s + 1\<rparr>) of
           (nothing, s1) \<Rightarrow>
             if nothing then Stop (Returned 0 s1)
             else Continue s1 (lv\<lparr>lprobing := False\<rparr>)))"

partial_function (option) solve_loop ::
  "env \<Rightarrow> config \<Rightarrow> puzzle \<Rightarrow> state \<Rightarrow> locals \<Rightarrow> outcome option" where
  "solve_loop E C puz s lv =
     (case logic_solve E puz s of
        None \<Rightarrow> None
      | Some (rc, s1) \<Rightarrow>
          (case solve_step E C puz rc s1 lv of
             Continue s2 lv2 \<Rightarrow> solve_loop E C puz s2 lv2
           | Stop r \<Rightarrow> Some r))"

declare solve_loop.simps [code]

definition init_locals :: locals where
  "init_locals = \<lparr>lprobing = False, li = 0, lj = 0, lc = 0, bestnleft = 0, best = None\<rparr>"

definition solve :: "env \<Rightarrow> config \<Rightarrow> puzzle \<Rightarrow> state \<Rightarrow> outcome option" where
  "solve E C puz s =
     (if ncolor puz < 2 then Some (Returned 1 (s\<lparr>nsolved := ncells puz\<rparr>))
      else solve_loop E C puz s init_locals)"

section \<open>probe.c (trunk)\<close>



















section \<open>Vocabulary of the properties\<close>






text \<open>A state without its cells, job list and \<open>nsolved\<close>: what \<open>try_everything\<close> must
  leave alone.\<close>

definition rest :: "state \<Rightarrow> state" where
  "rest s = s\<lparr>cells := [], jobs := [], nsolved := 0\<rparr>"






text \<open>The states and local variables with which \<open>solve\<close> can be at the top of its loop,
  having entered it with the first pair.\<close>

inductive solve_reaches ::
  "env \<Rightarrow> config \<Rightarrow> puzzle \<Rightarrow> state \<times> locals \<Rightarrow> state \<times> locals \<Rightarrow> bool"
  for E :: env and C :: config and puz :: puzzle where
  entry: "solve_reaches E C puz sl sl"
| iteration:
    "solve_reaches E C puz sl (s1, lv1) \<Longrightarrow> logic_solve E puz s1 = Some (rc, s2) \<Longrightarrow>
     solve_step E C puz rc s2 lv1 = Continue s3 lv3 \<Longrightarrow> solve_reaches E C puz sl (s3, lv3)"










section \<open>An example\<close>

text \<open>A puzzle of one row and two columns in two colours whose clues paint both cells:
  the row clue is one run of length 2, each column clue one run of length 1.\<close>

definition ex_puz :: puzzle where
  "ex_puz =
     \<lparr>ncolor = 2, nset = 2,
      clue = [[\<lparr>clue_n = 1, clue_length = [2], clue_color = [1], clue_slack = 0\<rparr>],
              [\<lparr>clue_n = 1, clue_length = [1], clue_color = [1], clue_slack = 0\<rparr>,
               \<lparr>clue_n = 1, clue_length = [1], clue_color = [1], clue_slack = 0\<rparr>]],
      ncells = 2, line0 = [[0, 1]]\<rparr>"

definition ex_cells :: "cell list" where
  "ex_cells = [\<lparr>cline0 = 0, cline1 = 0, cell_n = 2, cell_bit = {0, 1}\<rparr>,
               \<lparr>cline0 = 0, cline1 = 1, cell_n = 2, cell_bit = {0, 1}\<rparr>]"

text \<open>Nothing is known about either cell, and nothing is queued or recorded.\<close>

definition ex_state :: state where
  "ex_state =
     \<lparr>cells = ex_cells, nsolved = 0, jobs = [], history = [], merge_list = [], merge_no = 0,
      probepad = {}, probing = False, merging = False, nlines = 0, guesses = 0, probes = 0,
      merges = 0\<rparr>"

text \<open>An undo for the example: it pops the history down to and including the newest
  branch point, restoring each cell and counting down \<open>nsolved\<close> for a cell that is no
  longer solved.\<close>

fun ex_unwind :: "hist list \<Rightarrow> state \<Rightarrow> state" where
  "ex_unwind [] s = s\<lparr>history := []\<rparr>"
| "ex_unwind (h # hs) s =
     (let s1 = (set_cell s (hcell h) (hn h) (hbit h))
                 \<lparr>nsolved :=
                    nsolved s - (if cell_n (cells s ! hcell h) = 1 \<and> hn h \<noteq> 1 then 1 else 0),
                  history := hs\<rparr>
      in if hbranch h then s1 else ex_unwind hs s1)"

text \<open>A backtrack for the example, good for a history that holds one guess: it takes the
  guessed colour out of the old bit string of the cell and empties the job list.\<close>

definition ex_backtrack :: "puzzle \<Rightarrow> state \<Rightarrow> bool \<times> state" where
  "ex_backtrack puz s =
     (case history s of
        [] \<Rightarrow> (True, s)
      | h # hs \<Rightarrow>
          (False,
           (set_cell s (hcell h) (hn h - 1) (hbit h - cell_bit (cells s ! hcell h)))
             \<lparr>history := hs, jobs := []\<rparr>))"

text \<open>The functions for the example. A line has a placement when each of its cells may be
  colour 1; the line solver deduces nothing; the trunk's \<open>logic_solve\<close> reports a
  contradiction when some cell cannot be colour 1 and stalls otherwise; nothing is merged;
  the heuristic finds no cell.\<close>

definition ex_env :: env where
  "ex_env =
     \<lparr>left_solve = (\<lambda>puz cs k i.
        if list_all (\<lambda>c. cell_line c k \<noteq> i \<or> 1 \<in> cell_bit c) cs then Some [0] else None),
      apply_lro = (\<lambda>puz s k i. (True, s)),
      job_priority = (\<lambda>puz s k i. 0),
      undo = (\<lambda>puz s. ex_unwind (history s) s),
      backtrack = ex_backtrack,
      merge_guess = (\<lambda>s. s),
      merge_cancel = (\<lambda>s. s),
      merge_check = (\<lambda>puz s. (False, s)),
      pick_a_cell = (\<lambda>puz s. None),
      pick_color = (\<lambda>puz s a. None),
      logic_solve_trunk = (\<lambda>puz s.
        (if list_all (\<lambda>c. 1 \<in> cell_bit c) (cells s) then 0 else - 1, s))\<rparr>"


text \<open>Guessing is disabled; the exhaustive check is enabled.\<close>

definition ex_conf :: config where
  "ex_conf = \<lparr>maybacktrack = False, mayprobe = True, tryharder = True, mergeprobe = False,
              probelevel = 1\<rparr>"




section \<open>Lemmas\<close>

lemma ratecell_row_only: "ratecell puz i j = 4 * line_score puz 0 i"
  by (simp add: ratecell_def line_score_def Let_def)

lemma next_job_None: "next_job s = None \<longleftrightarrow> jobs s = []"
  by (simp add: next_job_def Let_def split: list.splits)

lemma logic_solve_quiescent:
  "logic_solve E puz s = Some r \<Longrightarrow> fst r \<noteq> 0 \<Longrightarrow> fst r = 1 \<and> jobs (snd r) = []"
proof (induction rule: logic_solve.raw_induct[rotated 1, consumes 1])
  case (1 logic_solve E puz s r)
  show ?case
  proof (cases "next_job s")
    case None
    with 1 show ?thesis by (auto simp: next_job_None)
  next
    case (Some t)
    obtain dir i s1 where t: "t = (dir, i, s1)" by (cases t) auto
    obtain ok s2 where a: "apply_lro E puz (s1\<lparr>nlines := nlines s1 + 1\<rparr>) dir i = (ok, s2)"
      by (cases "apply_lro E puz (s1\<lparr>nlines := nlines s1 + 1\<rparr>) dir i") auto
    from 1(2) Some t a have "(if \<not> ok then Some (0, s2) else logic_solve E puz s2) = Some r"
      by simp
    then show ?thesis using 1(1)[of E puz s2 r] 1(3) by (auto split: if_splits)
  qed
qed

lemma logic_solve_idem:
  assumes "logic_solve E puz s = Some (rc, s')" "rc \<noteq> 0"
  shows "rc = 1 \<and> jobs s' = [] \<and> logic_solve E puz s' = Some (1, s')"
proof -
  from logic_solve_quiescent[OF assms(1)] assms(2) have q: "rc = 1" "jobs s' = []" by auto
  then have "next_job s' = None" by (simp add: next_job_None)
  then have "logic_solve E puz s' = Some (1, s')" by (subst logic_solve.simps) simp
  with q show ?thesis by simp
qed

lemma add_job_frame: "add_job E puz s k i = s\<lparr>jobs := jobs (add_job E puz s k i)\<rparr>"
  by (simp add: add_job_def)

lemma add_jobs_frame_aux:
  "foldl (\<lambda>t k. add_job E puz t k (f t k)) s ks
     = s\<lparr>jobs := jobs (foldl (\<lambda>t k. add_job E puz t k (f t k)) s ks)\<rparr>"
proof (induction ks rule: rev_induct)
  case Nil
  show ?case by simp
next
  case (snoc k ks)
  let ?t = "foldl (\<lambda>t k. add_job E puz t k (f t k)) s ks"
  have "add_job E puz ?t k (f ?t k) = ?t\<lparr>jobs := jobs (add_job E puz ?t k (f ?t k))\<rparr>"
    by (rule add_job_frame)
  also have "\<dots> = s\<lparr>jobs := jobs (add_job E puz ?t k (f ?t k))\<rparr>"
    by (subst snoc.IH) simp
  finally show ?case by simp
qed

lemma add_jobs_frame: "add_jobs E puz s a = s\<lparr>jobs := jobs (add_jobs E puz s a)\<rparr>"
  unfolding add_jobs_def by (rule add_jobs_frame_aux)









lemma bit_simps: "bit_set (bit_clearall b k) c = {c}" "bit_clear b c = b - {c}" "bit_test b c = (c \<in> b)"
  by (simp_all add: bit_set_def bit_clearall_def bit_clear_def bit_test_def)

lemma try_colors_induct [case_names Nil skip pass last elim]:
  assumes "\<And>s rb rn hits. P [] s rb rn hits (s, rb, rn, hits)"
    and "\<And>c cs s rb rn hits. c \<notin> rb \<Longrightarrow>
           P cs s rb rn hits (try_colors E puz a cs s rb rn hits) \<Longrightarrow>
           P (c # cs) s rb rn hits (try_colors E puz a cs s rb rn hits)"
    and "\<And>c cs s rb rn hits. c \<in> rb \<Longrightarrow>
           check_lines E puz (cells (set_cell s a 1 {c})) a [0..<nset puz] \<Longrightarrow>
           P cs (set_cell s a 1 {c}) rb rn hits
             (try_colors E puz a cs (set_cell s a 1 {c}) rb rn hits) \<Longrightarrow>
           P (c # cs) s rb rn hits (try_colors E puz a cs (set_cell s a 1 {c}) rb rn hits)"
    and "\<And>c cs s rb rn hits. c \<in> rb \<Longrightarrow>
           \<not> check_lines E puz (cells (set_cell s a 1 {c})) a [0..<nset puz] \<Longrightarrow>
           rn - 1 = 1 \<Longrightarrow>
           P (c # cs) s rb rn hits
             ((add_jobs E puz (set_cell s a 1 {c}) a)
                \<lparr>nsolved := nsolved (add_jobs E puz (set_cell s a 1 {c}) a) + 1\<rparr>,
              rb - {c}, rn - 1, hits + 1)"
    and "\<And>c cs s rb rn hits. c \<in> rb \<Longrightarrow>
           \<not> check_lines E puz (cells (set_cell s a 1 {c})) a [0..<nset puz] \<Longrightarrow>
           rn - 1 \<noteq> 1 \<Longrightarrow>
           P cs (add_jobs E puz (set_cell s a 1 {c}) a) (rb - {c}) (rn - 1) (hits + 1)
             (try_colors E puz a cs (add_jobs E puz (set_cell s a 1 {c}) a) (rb - {c}) (rn - 1)
                (hits + 1)) \<Longrightarrow>
           P (c # cs) s rb rn hits
             (try_colors E puz a cs (add_jobs E puz (set_cell s a 1 {c}) a) (rb - {c}) (rn - 1)
                (hits + 1))"
  shows "P cs s rb rn hits (try_colors E puz a cs s rb rn hits)"
proof (induction cs arbitrary: s rb rn hits)
  case Nil
  show ?case using assms(1) by simp
next
  case (Cons c cs)
  show ?case
  proof (cases "c \<in> rb")
    case False
    then have "try_colors E puz a (c # cs) s rb rn hits = try_colors E puz a cs s rb rn hits"
      by (simp add: bit_simps)
    with assms(2)[OF False Cons.IH] show ?thesis by simp
  next
    case True
    show ?thesis
    proof (cases "check_lines E puz (cells (set_cell s a 1 {c})) a [0..<nset puz]")
      case pass: True
      with True have "try_colors E puz a (c # cs) s rb rn hits
          = try_colors E puz a cs (set_cell s a 1 {c}) rb rn hits"
        by (simp add: bit_simps)
      with assms(3)[OF True pass Cons.IH] show ?thesis by simp
    next
      case fail: False
      show ?thesis
      proof (cases "rn - 1 = 1")
        case True
        with \<open>c \<in> rb\<close> fail have "try_colors E puz a (c # cs) s rb rn hits
          = ((add_jobs E puz (set_cell s a 1 {c}) a)
                \<lparr>nsolved := nsolved (add_jobs E puz (set_cell s a 1 {c}) a) + 1\<rparr>,
              rb - {c}, rn - 1, hits + 1)"
          by (simp add: bit_simps Let_def)
        with assms(4)[OF \<open>c \<in> rb\<close> fail True] show ?thesis by simp
      next
        case False
        with \<open>c \<in> rb\<close> fail have "try_colors E puz a (c # cs) s rb rn hits
          = try_colors E puz a cs (add_jobs E puz (set_cell s a 1 {c}) a) (rb - {c}) (rn - 1)
                (hits + 1)"
          by (simp add: bit_simps Let_def)
        with assms(5)[OF \<open>c \<in> rb\<close> fail False Cons.IH] show ?thesis by simp
      qed
    qed
  qed
qed


lemma rest_simps:
  "rest (set_cell s a m b) = rest s"
  "rest (add_jobs E puz s a) = rest s"
  "rest (s\<lparr>nsolved := N\<rparr>) = rest s"
  "rest (s\<lparr>jobs := J\<rparr>) = rest s"
  by (simp add: rest_def set_cell_def, (subst add_jobs_frame, simp add: rest_def), simp_all add: rest_def)

lemma try_colors_rest: "rest (fst (try_colors E puz a cs s rb rn hits)) = rest s"
  by (rule try_colors_induct[where P = "\<lambda>cs s rb rn hits r. rest (fst r) = rest s"])
     (simp_all add: rest_simps)



































































































section \<open>The claims\<close>

text \<open>
  C10. For a puzzle with fewer than two colours \<open>solve\<close> sets \<open>nsolved\<close> to \<open>ncells\<close> and
  returns 1 at once: the state it returns is the state it was given with only \<open>nsolved\<close>
  changed, so no job is taken, no line is counted, nothing is recorded in the history,
  and the result is the same for every line solver and every clue, satisfiable or not.
\<close>

theorem solve_fewer_than_two_colours:
  "ncolor puz < 2 \<Longrightarrow> solve E C puz s = Some (Returned 1 (s\<lparr>nsolved := ncells puz\<rparr>))"
  by (simp add: solve_def)

text \<open>The example puzzle with its colour table cut down to the background: its clues
  ask for two painted cells and cannot be met, and a job is waiting.\<close>

theorem solve_fewer_than_two_colours_witness:
  "ncolor (ex_puz\<lparr>ncolor := 1\<rparr>) < 2
   \<and> solve ex_env ex_conf (ex_puz\<lparr>ncolor := 1\<rparr>)
         (ex_state\<lparr>jobs := [\<lparr>priority = 0, jdir = 0, jn = 0\<rparr>]\<rparr>)
       = Some (Returned 1 (ex_state\<lparr>jobs := [\<lparr>priority = 0, jdir = 0, jn = 0\<rparr>], nsolved := 2\<rparr>))"
proof -
  have h: "ncolor (ex_puz\<lparr>ncolor := 1\<rparr>) < 2" by simp
  show ?thesis
    using h solve_fewer_than_two_colours[OF h, of ex_env ex_conf
        "ex_state\<lparr>jobs := [\<lparr>priority = 0, jdir = 0, jn = 0\<rparr>]\<rparr>"]
    by (simp add: ex_puz_def)
qed

text \<open>
  C5. \<open>logic_solve\<close> is idempotent: when a call returns 1 (no contradiction) the job list
  of the state it returns is empty, so \<open>next_job\<close> finds no job there and a second call
  returns 1 with that very state.
\<close>

theorem logic_solve_idempotent:
  "logic_solve E puz s = Some (1, s') \<Longrightarrow>
     jobs s' = [] \<and> next_job s' = None \<and> logic_solve E puz s' = Some (1, s')"
  using logic_solve_idem[of E puz s 1 s'] by (simp add: next_job_None)

theorem logic_solve_idempotent_witness:
  "logic_solve ex_env ex_puz (ex_state\<lparr>jobs := [\<lparr>priority = 0, jdir = 0, jn = 0\<rparr>]\<rparr>)
     = Some (1, ex_state\<lparr>nlines := 1\<rparr>)
   \<and> jobs (ex_state\<lparr>nlines := 1\<rparr>) = []
   \<and> logic_solve ex_env ex_puz (ex_state\<lparr>nlines := 1\<rparr>) = Some (1, ex_state\<lparr>nlines := 1\<rparr>)"
proof -
  have h: "logic_solve ex_env ex_puz (ex_state\<lparr>jobs := [\<lparr>priority = 0, jdir = 0, jn = 0\<rparr>]\<rparr>)
     = Some (1, ex_state\<lparr>nlines := 1\<rparr>)"
    by code_simp
  show ?thesis using h logic_solve_idempotent[OF h] by simp
qed


















end
